theory Spec2Isabelle
  imports Main
begin

section \<open>The map module: Voxel, Cube, World\<close>

text \<open>
  A shallow embedding of the map module (classes \<open>World\<close>, \<open>Cube\<close> and \<open>Voxel\<close>).

  Numbers are modelled as unbounded integers (\<open>int\<close> for colour channels and ids, \<open>nat\<close>
  for array lengths and indices); the floating-point values of JavaScript (\<open>NaN\<close>,
  fractions) are outside the model, except that an index that is \<open>NaN\<close> or \<open>Infinity\<close>
  (a division or remainder by zero) is the index \<open>None\<close>, which no array holds.

  Arrays are lists. Reading an array out of range gives \<open>undefined\<close>, which is \<open>None\<close>;
  reading a property of \<open>undefined\<close> throws a \<open>TypeError\<close>. Every \<open>throw\<close> of the source
  is a value \<open>Inl e\<close> of the result.
\<close>

datatype error =
    SpaceUnequalDimensionality    \<comment> \<open>"The space has unequal dimensionality"\<close>
  | CubesUnequalSizes             \<comment> \<open>"The cubes have unequal sizes"\<close>
  | IntegrityBuildFailed          \<comment> \<open>"Integrtity Error: Build failed"\<close>
  | NoBlockDefined                \<comment> \<open>"No block defined yet, therefor no cube dimensions present"\<close>
  | CubeDimensionsDoNotConform    \<comment> \<open>"cube dimensions do not confrom to other cubes dimensions"\<close>
  | TypeError                     \<comment> \<open>a property of \<open>undefined\<close> was read\<close>

fun bindE :: "error + 'a \<Rightarrow> ('a \<Rightarrow> error + 'b) \<Rightarrow> error + 'b" where
  "bindE (Inl e) f = Inl e"
| "bindE (Inr x) f = f x"

subsection \<open>JavaScript arrays\<close>

definition js_nth :: "'a list \<Rightarrow> nat option \<Rightarrow> 'a option" where
  \<comment> \<open>\<open>xs[i]\<close>: \<open>undefined\<close> out of range\<close>
  "js_nth xs i = (case i of None \<Rightarrow> None
                  | Some n \<Rightarrow> if n < length xs then Some (xs ! n) else None)"

definition js_nth_int :: "'a list \<Rightarrow> int option \<Rightarrow> 'a option" where
  \<comment> \<open>\<open>xs[i]\<close> for a computed number \<open>i\<close>, which may be negative or \<open>NaN\<close>\<close>
  "js_nth_int xs i = (case i of None \<Rightarrow> None
                      | Some n \<Rightarrow> if 0 \<le> n \<and> nat n < length xs then Some (xs ! nat n) else None)"

definition index :: "'a list option \<Rightarrow> nat option \<Rightarrow> error + 'a option" where
  \<comment> \<open>\<open>v[i]\<close> for a value \<open>v\<close> that is an array or \<open>undefined\<close>\<close>
  "index v i = (case v of None \<Rightarrow> Inl TypeError | Some xs \<Rightarrow> Inr (js_nth xs i))"

definition floor_div :: "nat \<Rightarrow> nat \<Rightarrow> nat option" where
  \<comment> \<open>\<open>Math.floor(x/d)\<close>\<close>
  "floor_div x d = (if d = 0 then None else Some (x div d))"

definition remainder :: "nat \<Rightarrow> nat \<Rightarrow> nat option" where
  \<comment> \<open>\<open>x%d\<close>\<close>
  "remainder x d = (if d = 0 then None else Some (x mod d))"

definition flat2 :: "'a list list list \<Rightarrow> 'a list" where
  \<comment> \<open>\<open>xs.flat(2)\<close> of a three-dimensional array\<close>
  "flat2 xs = concat (concat xs)"

fun map_throwing :: "('a \<Rightarrow> error + 'b) \<Rightarrow> 'a list \<Rightarrow> error + 'b list" where
  \<comment> \<open>\<open>xs.map(f)\<close> for a callback that may throw: the first throw ends the map\<close>
  "map_throwing f [] = Inr []"
| "map_throwing f (x # xs) =
     bindE (f x) (\<lambda>y. bindE (map_throwing f xs) (\<lambda>ys. Inr (y # ys)))"

fun some_throwing :: "('a \<Rightarrow> error + bool) \<Rightarrow> 'a list \<Rightarrow> error + bool" where
  \<comment> \<open>\<open>xs.some(f)\<close> for a callback that may throw\<close>
  "some_throwing f [] = Inr False"
| "some_throwing f (x # xs) =
     bindE (f x) (\<lambda>b. if b then Inr True else some_throwing f xs)"

subsection \<open>Voxel\<close>

record voxel =
  vox_r :: int
  vox_g :: int
  vox_b :: int
  vox_a :: int

definition Voxel :: "int \<Rightarrow> int \<Rightarrow> int \<Rightarrow> int \<Rightarrow> voxel" where
  "Voxel r g b a = \<lparr>vox_r = r, vox_g = g, vox_b = b, vox_a = a\<rparr>"

definition Voxel_default :: voxel where
  \<comment> \<open>\<open>new Voxel()\<close>: every parameter has the default 0\<close>
  "Voxel_default = Voxel 0 0 0 0"

definition visible :: "voxel \<Rightarrow> bool" where
  "visible v = (vox_a v \<noteq> 0)"

definition Voxel_eq :: "voxel \<Rightarrow> voxel \<Rightarrow> bool" where
  "Voxel_eq u v = (vox_r u = vox_r v \<and> vox_g u = vox_g v \<and> vox_b u = vox_b v \<and> vox_a u = vox_a v)"

definition argument :: "int list \<Rightarrow> nat \<Rightarrow> int" where
  \<comment> \<open>the \<open>i\<close>-th argument of \<open>new Voxel(...values)\<close>: a missing one takes the default 0\<close>
  "argument vs i = (if i < length vs then vs ! i else 0)"

definition Voxel_fromJSON :: "int list \<Rightarrow> voxel" where
  \<comment> \<open>\<open>new Voxel(...Object.values(json))\<close>; the argument is \<open>Object.values(json)\<close>\<close>
  "Voxel_fromJSON vs = Voxel (argument vs 0) (argument vs 1) (argument vs 2) (argument vs 3)"

subsection \<open>Cube\<close>

text \<open>
  The cells of a cube are of type \<open>'v\<close>: a cube given to the module holds voxels
  (\<open>voxel cube\<close>), the cube that \<open>asCube\<close> builds may hold \<open>undefined\<close> cells
  (\<open>voxel option cube\<close>).
\<close>

record 'v cube =
  cube_name :: string
  cube_description :: string
  vox :: "'v list list list"
  cube_author :: string

definition Cube_width :: "'v cube \<Rightarrow> nat" where
  "Cube_width c = length (vox c)"

definition Cube_height :: "'v cube \<Rightarrow> error + nat" where
  \<comment> \<open>\<open>this.vox[0].length\<close>\<close>
  "Cube_height c = (case vox c of [] \<Rightarrow> Inl TypeError | x # _ \<Rightarrow> Inr (length x))"

definition Cube_depth :: "'v cube \<Rightarrow> error + nat" where
  \<comment> \<open>\<open>this.vox[0][0].length\<close>\<close>
  "Cube_depth c = (case vox c of [] \<Rightarrow> Inl TypeError
                   | x # _ \<Rightarrow> (case x of [] \<Rightarrow> Inl TypeError | y # _ \<Rightarrow> Inr (length y)))"

definition dedupe :: "voxel list \<Rightarrow> voxel list" where
  \<comment> \<open>the \<open>reduce\<close> of \<open>Cube.voxelTypes\<close>\<close>
  "dedupe cs = foldl (\<lambda>a c. if list_all (\<lambda>v. \<not> Voxel_eq v c) a then a @ [c] else a) [] cs"

definition Cube_voxelTypes :: "voxel cube \<Rightarrow> voxel list" where
  "Cube_voxelTypes c = filter visible (dedupe (flat2 (vox c)))"

definition Cube_map :: "('v \<Rightarrow> nat \<Rightarrow> nat \<Rightarrow> nat \<Rightarrow> 'u) \<Rightarrow> 'v cube \<Rightarrow> 'u cube" where
  "Cube_map f c =
     \<lparr>cube_name = cube_name c, cube_description = cube_description c,
      vox = map (\<lambda>(i, x). map (\<lambda>(j, y). map (\<lambda>(k, z). f z i j k) (enumerate 0 y))
                                    (enumerate 0 x))
                (enumerate 0 (vox c)),
      cube_author = cube_author c\<rparr>"

definition Cube_empty :: "nat \<Rightarrow> nat \<Rightarrow> nat \<Rightarrow> voxel cube" where
  "Cube_empty x y z =
     \<lparr>cube_name = '''', cube_description = '''',
      vox = replicate x (replicate y (replicate z Voxel_default)), cube_author = ''''\<rparr>"

record json_cube =
  json_cube_name :: string
  json_cube_description :: string
  json_vox :: "int list list list list"
  json_cube_author :: string

definition Cube_fromJSON :: "json_cube \<Rightarrow> voxel cube" where
  "Cube_fromJSON j =
     \<lparr>cube_name = json_cube_name j, cube_description = json_cube_description j,
      vox = map (\<lambda>x. map (\<lambda>y. map Voxel_fromJSON y) x) (json_vox j),
      cube_author = json_cube_author j\<rparr>"

subsection \<open>World\<close>

record world =
  name :: string
  description :: string
  cube :: "voxel cube list"
  space :: "int list list list"
  author :: string

definition World :: "string \<Rightarrow> string \<Rightarrow> voxel cube list \<Rightarrow> int list list list \<Rightarrow> string \<Rightarrow> world" where
  "World n d c s a = \<lparr>name = n, description = d, cube = c, space = s, author = a\<rparr>"

definition width :: "world \<Rightarrow> nat" where
  "width w = length (space w)"

definition height :: "world \<Rightarrow> error + nat" where
  \<comment> \<open>\<open>this.space[0].length\<close>\<close>
  "height w = (case space w of [] \<Rightarrow> Inl TypeError | x # _ \<Rightarrow> Inr (length x))"

definition depth :: "world \<Rightarrow> error + nat" where
  \<comment> \<open>\<open>this.space[0][0].length\<close>\<close>
  "depth w = (case space w of [] \<Rightarrow> Inl TypeError
              | x # _ \<Rightarrow> (case x of [] \<Rightarrow> Inl TypeError | y # _ \<Rightarrow> Inr (length y)))"

definition cubeWidth :: "world \<Rightarrow> error + nat" where
  "cubeWidth w = (if length (cube w) > 0 then Inr (Cube_width (cube w ! 0))
                  else Inl NoBlockDefined)"

definition cubeHeight :: "world \<Rightarrow> error + nat" where
  "cubeHeight w = (if length (cube w) > 0 then Cube_height (cube w ! 0)
                   else Inl NoBlockDefined)"

definition cubeDepth :: "world \<Rightarrow> error + nat" where
  "cubeDepth w = (if length (cube w) > 0 then Cube_depth (cube w ! 0)
                  else Inl NoBlockDefined)"

definition unequal_size :: "world \<Rightarrow> voxel cube \<Rightarrow> error + bool" where
  \<comment> \<open>the callback of \<open>some\<close> in \<open>integrity\<close>; \<open>||\<close> reads its right operand only when
      the left one is false\<close>
  "unequal_size w c =
     bindE (cubeWidth w) (\<lambda>cw. if Cube_width c \<noteq> cw then Inr True else
     bindE (Cube_height c) (\<lambda>h. bindE (cubeHeight w) (\<lambda>ch. if h \<noteq> ch then Inr True else
     bindE (Cube_depth c) (\<lambda>d. bindE (cubeDepth w) (\<lambda>cd. Inr (d \<noteq> cd))))))"

definition integrity :: "world \<Rightarrow> error + bool" where
  "integrity w =
     bindE (height w) (\<lambda>h. bindE (depth w) (\<lambda>d.
       if width w * h * d \<noteq> length (flat2 (space w)) then Inl SpaceUnequalDimensionality
       else if length (cube w) > 0 then
         bindE (some_throwing (unequal_size w) (cube w)) (\<lambda>b.
           if b then Inl CubesUnequalSizes else Inr True)
       else Inr True))"

definition asCube_voxel :: "world \<Rightarrow> nat \<Rightarrow> nat \<Rightarrow> nat \<Rightarrow> error + voxel option" where
  \<comment> \<open>the innermost callback of \<open>asCube\<close>, at the output coordinate \<open>(x, y, z)\<close>; the
      getters \<open>cubeWidth\<close> and \<open>cubeHeight\<close> have no effect and are read once each, where
      the source first reads them; the z axis is divided by \<open>cubeWidth\<close>, as in the source\<close>
  "asCube_voxel w x y z =
     bindE (cubeWidth w) (\<lambda>cw.
     bindE (index (Some (space w)) (floor_div x cw)) (\<lambda>s1.
     bindE (cubeHeight w) (\<lambda>ch.
     bindE (index s1 (floor_div y ch)) (\<lambda>s2.
     bindE (index s2 (floor_div z cw)) (\<lambda>id.
       if id = Some 0 then Inr (Some Voxel_default)
       else
         (case js_nth_int (cube w) (map_option (\<lambda>i. i - 1) id) of
            None \<Rightarrow> Inl TypeError
          | Some c \<Rightarrow>
              bindE (index (Some (vox c)) (remainder x cw)) (\<lambda>v1.
              bindE (index v1 (remainder y ch)) (\<lambda>v2.
              index v2 (remainder z cw)))))))))"

definition asCube :: "world \<Rightarrow> error + voxel option cube" where
  "asCube w =
     bindE (integrity w) (\<lambda>ok. if \<not> ok then Inl IntegrityBuildFailed else
     bindE (cubeWidth w) (\<lambda>cw.
     bindE (map_throwing (\<lambda>x.
              bindE (cubeHeight w) (\<lambda>ch. bindE (height w) (\<lambda>h.
              map_throwing (\<lambda>y.
                bindE (cubeDepth w) (\<lambda>cd. bindE (depth w) (\<lambda>d.
                map_throwing (\<lambda>z. asCube_voxel w x y z) [0..<cd * d])))
              [0..<ch * h])))
            [0..<cw * width w]) (\<lambda>v.
     Inr \<lparr>cube_name = name w, cube_description = description w, vox = v,
          cube_author = author w\<rparr>)))"

definition merge_types :: "voxel list list \<Rightarrow> voxel list" where
  \<comment> \<open>the \<open>reduce\<close> of \<open>World.voxelTypes\<close>\<close>
  "merge_types ts =
     foldl (\<lambda>a c. a @ filter (\<lambda>x. \<not> list_ex (\<lambda>y. Voxel_eq x y) a) c) [] ts"

definition voxelTypes :: "world \<Rightarrow> voxel list" where
  "voxelTypes w = merge_types (map Cube_voxelTypes (cube w))"

definition addCube :: "world \<Rightarrow> voxel cube \<Rightarrow> (error + unit) \<times> world" where
  \<comment> \<open>the result of the call and the world after it\<close>
  "addCube w c =
     (let check =
        (if length (cube w) \<noteq> 0 then
           bindE (cubeWidth w) (\<lambda>cw. if cw \<noteq> Cube_width c then Inl CubeDimensionsDoNotConform else
           bindE (cubeHeight w) (\<lambda>ch. bindE (Cube_height c) (\<lambda>h.
             if ch \<noteq> h then Inl CubeDimensionsDoNotConform else
           bindE (cubeDepth w) (\<lambda>cd. bindE (Cube_depth c) (\<lambda>d.
             if cd \<noteq> d then Inl CubeDimensionsDoNotConform else Inr ())))))
         else Inr ())
      in case check of
           Inl e \<Rightarrow> (Inl e, w)
         | Inr _ \<Rightarrow> (Inr (), w\<lparr>cube := cube w @ [c]\<rparr>))"

definition World_map :: "(int \<Rightarrow> nat \<Rightarrow> nat \<Rightarrow> nat \<Rightarrow> int) \<Rightarrow> world \<Rightarrow> world" where
  \<comment> \<open>the constructor is called with four arguments: \<open>author\<close> takes its default \<open>''\<close>\<close>
  "World_map f w =
     World (name w) (description w) (cube w)
       (map (\<lambda>(i, x). map (\<lambda>(j, y). map (\<lambda>(k, z). f z i j k) (enumerate 0 y))
                                (enumerate 0 x))
            (enumerate 0 (space w)))
       ''''"

definition World_empty :: "nat \<Rightarrow> nat \<Rightarrow> nat \<Rightarrow> world" where
  \<comment> \<open>the rows and columns of the source are one shared array each; as a value, the
      space is an all-zero grid\<close>
  "World_empty x y z = World '''' '''' [] (replicate x (replicate y (replicate z 0))) ''''"

record json_world =
  json_name :: string
  json_description :: string
  json_cube :: "json_cube list"
  json_space :: "int list list list"
  json_author :: string

definition World_fromJSON :: "json_world \<Rightarrow> world" where
  "World_fromJSON j =
     World (json_name j) (json_description j) (map Cube_fromJSON (json_cube j))
       (json_space j) (json_author j)"

subsection \<open>The serialised form\<close>

text \<open>
  Modelled from the spec: the serialiser. The module only reads the persisted format
  (\<open>fromJSON\<close>); the spec describes the format as a plain-object round trip in which a
  world has the fields \<open>name\<close>, \<open>description\<close>, \<open>author\<close>, \<open>cube\<close> and \<open>space\<close>, a cube the
  fields \<open>name\<close>, \<open>description\<close>, \<open>author\<close> and \<open>vox\<close>, and a voxel is the tuple of its four
  numbers \<open>(r, g, b, a)\<close>.
\<close>

definition Voxel_toJSON :: "voxel \<Rightarrow> int list" where
  \<comment> \<open>Modelled from the spec: a voxel is serialised as its four numbers, in the order r, g, b, a\<close>
  "Voxel_toJSON v = [vox_r v, vox_g v, vox_b v, vox_a v]"

definition Cube_toJSON :: "voxel cube \<Rightarrow> json_cube" where
  \<comment> \<open>Modelled from the spec: a cube is serialised field by field\<close>
  "Cube_toJSON c =
     \<lparr>json_cube_name = cube_name c, json_cube_description = cube_description c,
      json_vox = map (\<lambda>x. map (\<lambda>y. map Voxel_toJSON y) x) (vox c),
      json_cube_author = cube_author c\<rparr>"

definition World_toJSON :: "world \<Rightarrow> json_world" where
  \<comment> \<open>Modelled from the spec: a world is serialised field by field\<close>
  "World_toJSON w =
     \<lparr>json_name = name w, json_description = description w,
      json_cube = map Cube_toJSON (cube w), json_space = space w, json_author = author w\<rparr>"

subsection \<open>Notions used to state the properties\<close>

definition raises :: "error + 'a \<Rightarrow> bool" where
  "raises r = (case r of Inl _ \<Rightarrow> True | Inr _ \<Rightarrow> False)"

definition same_dimensions :: "'v cube \<Rightarrow> 'u cube \<Rightarrow> bool" where
  \<comment> \<open>no dimension of \<open>c\<close> differs from that of \<open>p\<close>: the three getters give the same\<close>
  "same_dimensions p c =
     (Cube_width c = Cube_width p \<and> Cube_height c = Cube_height p
      \<and> Cube_depth c = Cube_depth p)"

definition first_seen :: "voxel list \<Rightarrow> voxel \<Rightarrow> nat" where
  \<comment> \<open>the position at which a scan of \<open>xs\<close> first meets a voxel equal to \<open>v\<close>\<close>
  "first_seen xs v = length (takeWhile (\<lambda>u. \<not> Voxel_eq u v) xs)"

subsection \<open>Example worlds\<close>

definition block_1x1x1 :: "voxel cube" where
  "block_1x1x1 = \<lparr>cube_name = ''b'', cube_description = '''',
     vox = [[[Voxel 9 9 9 1]]], cube_author = ''''\<rparr>"

definition block_1x1x2 :: "voxel cube" where
  "block_1x1x2 = \<lparr>cube_name = ''long'', cube_description = '''',
     vox = [[[Voxel 1 2 3 4, Voxel 5 6 7 8]]], cube_author = ''''\<rparr>"

definition block_2x1x1 :: "voxel cube" where
  "block_2x1x1 = \<lparr>cube_name = ''b'', cube_description = '''',
     vox = [[[Voxel 1 2 3 4]], [[Voxel 5 6 7 8]]], cube_author = ''''\<rparr>"

definition block_1x1x4 :: "voxel cube" where
  "block_1x1x4 = \<lparr>cube_name = ''b'', cube_description = '''',
     vox = [[[Voxel 1 2 3 4, Voxel 0 0 0 0, Voxel 1 2 3 4, Voxel 5 6 7 8]]],
     cube_author = ''''\<rparr>"

definition world_1x1x2 :: world where
  \<comment> \<open>one block that is wider than deep, two places along z\<close>
  "world_1x1x2 = World ''w'' '''' [block_2x1x1] [[[1, 0]]] ''''"

definition expanded_1x1x2 :: "voxel option cube" where
  "expanded_1x1x2 = \<lparr>cube_name = ''w'', cube_description = '''',
     vox = [[[Some (Voxel 1 2 3 4), None]], [[Some (Voxel 5 6 7 8), None]]],
     cube_author = ''''\<rparr>"

definition world_checker :: world where
  "world_checker = World ''w'' '''' [block_1x1x1] [[[1, 0]]] ''me''"

definition expanded_checker :: "voxel option cube" where
  "expanded_checker = \<lparr>cube_name = ''w'', cube_description = '''',
     vox = [[[Some (Voxel 9 9 9 1), Some (Voxel 0 0 0 0)]]], cube_author = ''me''\<rparr>"

definition world_mixed :: world where
  \<comment> \<open>two blocks of different depth\<close>
  "world_mixed = World '''' '''' [block_1x1x1, block_1x1x2] [[[1, 2]]] ''''"

definition world_two_blocks :: world where
  "world_two_blocks = World '''' '''' [block_1x1x4, block_1x1x1] [[[1, 2, 0]]] ''''"

definition world_empty_palette :: world where
  "world_empty_palette = World_empty 1 1 1"

definition world_no_space :: world where
  "world_no_space = World_empty 0 0 0"

definition world_empty_block :: world where
  \<comment> \<open>the world of \<open>World.empty(1,1,1)\<close> after \<open>addCube(Cube.empty(0,0,0))\<close>\<close>
  "world_empty_block = World '''' '''' [Cube_empty 0 0 0] [[[0]]] ''''"

definition world_dangling_id :: world where
  "world_dangling_id = World '''' '''' [] [[[1]]] ''''"

definition world_signed :: world where
  "world_signed = World ''w'' ''d'' [] [[[0]]] ''me''"

section \<open>Properties of the building blocks\<close>

lemma Voxel_eq_iff: "Voxel_eq u v \<longleftrightarrow> u = v"
  by (auto simp: Voxel_eq_def)

lemma map_throwing_Inr:
  "map_throwing f xs = Inr ys \<longleftrightarrow>
   length ys = length xs \<and> (\<forall>i<length xs. f (xs ! i) = Inr (ys ! i))"
proof (induction xs arbitrary: ys)
  case Nil
  then show ?case by auto
next
  case (Cons x xs)
  show ?case
  proof (cases "f x")
    case (Inl e)
    then show ?thesis by (auto simp: nth_Cons split: nat.splits)
  next
    case (Inr y)
    note fx = this
    show ?thesis
    proof (cases "map_throwing f xs")
      case (Inl e)
      have "\<not> (length (tl ys) = length xs \<and> (\<forall>i<length xs. f (xs ! i) = Inr (tl ys ! i)))"
        using Cons.IH[of "tl ys"] Inl by simp
      then show ?thesis using fx Inl
        by (cases ys) (auto simp: nth_Cons split: nat.splits)
    next
      case (Inr zs)
      then have zs: "length zs = length xs" "\<forall>i<length xs. f (xs ! i) = Inr (zs ! i)"
        using Cons.IH[of zs] by auto
      show ?thesis
      proof
        assume "map_throwing f (x # xs) = Inr ys"
        then have "ys = y # zs" using fx Inr by simp
        then show "length ys = length (x # xs)
                 \<and> (\<forall>i<length (x # xs). f ((x # xs) ! i) = Inr (ys ! i))"
          using zs fx by (auto simp: nth_Cons split: nat.splits)
      next
        assume a: "length ys = length (x # xs)
                 \<and> (\<forall>i<length (x # xs). f ((x # xs) ! i) = Inr (ys ! i))"
        then obtain y' ys' where ys: "ys = y' # ys'" by (cases ys) auto
        from a ys have "f x = Inr y'" by auto
        then have y': "y' = y" using fx by simp
        from a ys have "length ys' = length xs" "\<forall>i<length xs. f (xs ! i) = Inr (ys' ! i)"
          by auto
        then have "map_throwing f xs = Inr ys'" using Cons.IH[of ys'] by simp
        then show "map_throwing f (x # xs) = Inr ys" using fx ys y' by simp
      qed
    qed
  qed
qed

lemma map_throwing_Inl:
  "map_throwing f xs = Inl e \<Longrightarrow> \<exists>x\<in>set xs. f x = Inl e"
proof (induction xs)
  case Nil
  then show ?case by simp
next
  case (Cons x xs)
  then show ?case
    by (cases "f x"; cases "map_throwing f xs") auto
qed

lemma map_throwing_returns:
  "(\<forall>x\<in>set xs. \<exists>y. f x = Inr y) \<Longrightarrow> \<exists>ys. map_throwing f xs = Inr ys"
  by (metis map_throwing_Inl sum.exhaust sum.distinct(1))

lemma some_throwing_Inr:
  assumes "\<And>x. x \<in> set xs \<Longrightarrow> f x = Inr (P x)"
  shows "some_throwing f xs = Inr (\<exists>x\<in>set xs. P x)"
  using assms by (induction xs) auto

lemma enumerate_identity: "map (\<lambda>(k, z). z) (enumerate n xs) = xs"
  by (simp add: case_prod_unfold)

lemma takeWhile_stops: "x \<in> set xs \<Longrightarrow> \<not> P x \<Longrightarrow> length (takeWhile P xs) < length xs"
  by (induction xs) auto

subsection \<open>Integrity\<close>

lemma integrity_True: "integrity w = Inr b \<Longrightarrow> b"
  unfolding integrity_def
  by (cases "height w"; cases "depth w"; cases "some_throwing (unequal_size w) (cube w)")
     (auto split: if_splits)

lemma unequal_size_Inr:
  assumes "cubeWidth w = Inr cw" and "cubeHeight w = Inr ch" and "cubeDepth w = Inr cd"
    and "0 < cw" and "0 < ch"
  shows "unequal_size w c =
         Inr (\<not> (Cube_width c = cw \<and> Cube_height c = Inr ch \<and> Cube_depth c = Inr cd))"
  using assms unfolding unequal_size_def Cube_width_def Cube_height_def Cube_depth_def
  by (cases "vox c"; cases "hd (vox c)") auto

lemma cube_extents_positive:
  assumes "cube w \<noteq> []" and "cubeHeight w = Inr ch" and "cubeDepth w = Inr cd"
  shows "\<exists>cw. cubeWidth w = Inr cw \<and> cw = Cube_width (cube w ! 0) \<and> 0 < cw \<and> 0 < ch"
  using assms unfolding cubeWidth_def cubeHeight_def cubeDepth_def
    Cube_width_def Cube_height_def Cube_depth_def
  by (auto split: list.splits)

lemma world_extents:
  assumes "height w = Inr h" and "depth w = Inr d"
  shows "h = length (space w ! 0) \<and> d = length (space w ! 0 ! 0)"
  using assms unfolding height_def depth_def by (auto split: list.splits)

lemma integrity_value:
  assumes "height w = Inr h" and "depth w = Inr d"
    and "cube w \<noteq> [] \<longrightarrow> cubeHeight w = Inr ch \<and> cubeDepth w = Inr cd"
  shows "integrity w =
    (if width w * h * d \<noteq> length (flat2 (space w)) then Inl SpaceUnequalDimensionality
     else if \<exists>c\<in>set (cube w). \<not> (Cube_width c = Cube_width (cube w ! 0)
                           \<and> Cube_height c = Cube_height (cube w ! 0)
                           \<and> Cube_depth c = Cube_depth (cube w ! 0))
       then Inl CubesUnequalSizes else Inr True)"
proof (cases "cube w = []")
  case True
  then show ?thesis using assms(1,2) by (simp add: integrity_def)
next
  case False
  with assms(3) have ch: "cubeHeight w = Inr ch" and cd: "cubeDepth w = Inr cd" by auto
  from cube_extents_positive[OF False ch cd] obtain cw where
    cw: "cubeWidth w = Inr cw" "cw = Cube_width (cube w ! 0)" "0 < cw" "0 < ch" by blast
  have first: "Cube_height (cube w ! 0) = Inr ch" "Cube_depth (cube w ! 0) = Inr cd"
    using False ch cd by (auto simp: cubeHeight_def cubeDepth_def)
  have s: "some_throwing (unequal_size w) (cube w) =
        Inr (\<exists>c\<in>set (cube w). \<not> (Cube_width c = cw \<and> Cube_height c = Inr ch
                                  \<and> Cube_depth c = Inr cd))"
    by (rule some_throwing_Inr) (rule unequal_size_Inr[OF cw(1) ch cd cw(3,4)])
  have "integrity w =
    (if width w * h * d \<noteq> length (flat2 (space w)) then Inl SpaceUnequalDimensionality
     else if \<exists>c\<in>set (cube w). \<not> (Cube_width c = cw \<and> Cube_height c = Inr ch
                                 \<and> Cube_depth c = Inr cd)
       then Inl CubesUnequalSizes else Inr True)"
    unfolding integrity_def using assms(1,2) False s by simp
  then show ?thesis unfolding cw(2) first .
qed

subsection \<open>The expansion\<close>

lemma asCube_integrity: "asCube w = Inr c \<Longrightarrow> integrity w = Inr True"
  unfolding asCube_def by (cases "integrity w") (auto split: if_splits)

lemma asCube_palette: "asCube w = Inr c \<Longrightarrow> cube w \<noteq> []"
  unfolding asCube_def cubeWidth_def
  by (cases "integrity w") (auto split: if_splits)

lemma asCube_integrity_error: "integrity w = Inl e \<Longrightarrow> asCube w = Inl e"
  unfolding asCube_def by simp

lemma asCube_NoBlockDefined:
  "cube w = [] \<Longrightarrow> integrity w = Inr True \<Longrightarrow> asCube w = Inl NoBlockDefined"
  unfolding asCube_def cubeWidth_def by simp

lemma asCube_expand:
  assumes "integrity w = Inr True" and "cubeWidth w = Inr cw" and "cubeHeight w = Inr ch"
    and "cubeDepth w = Inr cd" and "height w = Inr h" and "depth w = Inr d"
  shows "asCube w =
    bindE (map_throwing (\<lambda>x. map_throwing (\<lambda>y. map_throwing (\<lambda>z. asCube_voxel w x y z)
             [0..<cd * d]) [0..<ch * h]) [0..<cw * width w])
      (\<lambda>v. Inr \<lparr>cube_name = name w, cube_description = description w, vox = v,
                 cube_author = author w\<rparr>)"
  using assms unfolding asCube_def by simp

lemma asCube_cells:
  assumes "asCube w = Inr c" and "cubeWidth w = Inr cw" and "cubeHeight w = Inr ch"
    and "cubeDepth w = Inr cd" and "height w = Inr h" and "depth w = Inr d"
  shows "length (vox c) = cw * width w"
    and "x < cw * width w \<Longrightarrow> length (vox c ! x) = ch * h"
    and "x < cw * width w \<Longrightarrow> y < ch * h \<Longrightarrow> length (vox c ! x ! y) = cd * d"
    and "x < cw * width w \<Longrightarrow> y < ch * h \<Longrightarrow> z < cd * d \<Longrightarrow>
           asCube_voxel w x y z = Inr (vox c ! x ! y ! z)"
    and "cube_name c = name w" and "cube_description c = description w"
    and "cube_author c = author w"
proof -
  let ?row = "\<lambda>x y. map_throwing (\<lambda>z. asCube_voxel w x y z) [0..<cd * d]"
  let ?plane = "\<lambda>x. map_throwing (\<lambda>y. ?row x y) [0..<ch * h]"
  have i: "integrity w = Inr True" using assms(1) by (rule asCube_integrity)
  have e: "asCube w = bindE (map_throwing ?plane [0..<cw * width w])
      (\<lambda>v. Inr \<lparr>cube_name = name w, cube_description = description w, vox = v,
                 cube_author = author w\<rparr>)"
    using asCube_expand[OF i assms(2-6)] .
  then obtain v where v: "map_throwing ?plane [0..<cw * width w] = Inr v"
    and c: "c = \<lparr>cube_name = name w, cube_description = description w, vox = v,
                 cube_author = author w\<rparr>"
    using assms(1) by (cases "map_throwing ?plane [0..<cw * width w]") auto
  from c show "cube_name c = name w" "cube_description c = description w"
    "cube_author c = author w" by simp_all
  from v have lv: "length v = cw * width w"
    and pv: "\<And>x. x < cw * width w \<Longrightarrow> ?plane x = Inr (v ! x)"
    by (auto simp: map_throwing_Inr)
  from lv c show "length (vox c) = cw * width w" by simp
  { assume x: "x < cw * width w"
    from pv[OF x] have lx: "length (v ! x) = ch * h"
      and rx: "\<And>y. y < ch * h \<Longrightarrow> ?row x y = Inr (v ! x ! y)"
      by (auto simp: map_throwing_Inr)
    from lx c show "length (vox c ! x) = ch * h" by simp
    { assume y: "y < ch * h"
      from rx[OF y] have ly: "length (v ! x ! y) = cd * d"
        and cz: "\<And>z. z < cd * d \<Longrightarrow> asCube_voxel w x y z = Inr (v ! x ! y ! z)"
        by (auto simp: map_throwing_Inr)
      from ly c show "length (vox c ! x ! y) = cd * d" by simp
      { assume z: "z < cd * d"
        from cz[OF z] c show "asCube_voxel w x y z = Inr (vox c ! x ! y ! z)" by simp
      }
    }
  }
qed

lemma asCube_returns:
  assumes "integrity w = Inr True" and "cubeWidth w = Inr cw" and "cubeHeight w = Inr ch"
    and "cubeDepth w = Inr cd" and "height w = Inr h" and "depth w = Inr d"
    and "\<And>x y z. x < cw * width w \<Longrightarrow> y < ch * h \<Longrightarrow> z < cd * d \<Longrightarrow>
           \<exists>v. asCube_voxel w x y z = Inr v"
  shows "\<exists>c. asCube w = Inr c"
proof -
  let ?row = "\<lambda>x y. map_throwing (\<lambda>z. asCube_voxel w x y z) [0..<cd * d]"
  let ?plane = "\<lambda>x. map_throwing (\<lambda>y. ?row x y) [0..<ch * h]"
  have row: "\<exists>r. ?row x y = Inr r" if "x < cw * width w" "y < ch * h" for x y
    by (rule map_throwing_returns) (use that assms(7) in auto)
  have plane: "\<exists>p. ?plane x = Inr p" if "x < cw * width w" for x
    by (rule map_throwing_returns) (use that row in auto)
  have "\<exists>v. map_throwing ?plane [0..<cw * width w] = Inr v"
    by (rule map_throwing_returns) (use plane in auto)
  then show ?thesis unfolding asCube_expand[OF assms(1-6)] by auto
qed

lemma asCube_voxel_Inr:
  assumes "asCube_voxel w x y z = Inr v" and "cubeWidth w = Inr cw" and "cubeHeight w = Inr ch"
    and "0 < cw" and "0 < ch"
  shows "x div cw < length (space w) \<and> y div ch < length (space w ! (x div cw))
       \<and> z div cw < length (space w ! (x div cw) ! (y div ch))
       \<and> (if space w ! (x div cw) ! (y div ch) ! (z div cw) = 0 then v = Some Voxel_default
          else 0 < space w ! (x div cw) ! (y div ch) ! (z div cw)
             \<and> nat (space w ! (x div cw) ! (y div ch) ! (z div cw) - 1) < length (cube w)
             \<and> x mod cw
                 < length (vox (cube w ! nat (space w ! (x div cw) ! (y div ch) ! (z div cw) - 1)))
             \<and> y mod ch
                 < length (vox (cube w ! nat (space w ! (x div cw) ! (y div ch) ! (z div cw) - 1))
                             ! (x mod cw))
             \<and> v = js_nth (vox (cube w ! nat (space w ! (x div cw) ! (y div ch) ! (z div cw) - 1))
                              ! (x mod cw) ! (y mod ch)) (Some (z mod cw)))"
  using assms unfolding asCube_voxel_def
  by (auto simp: index_def js_nth_def js_nth_int_def floor_div_def remainder_def
           split: if_splits option.splits)

subsection \<open>Adding a cube\<close>

lemma addCube_empty: "cube w = [] \<Longrightarrow> addCube w c = (Inr (), w\<lparr>cube := cube w @ [c]\<rparr>)"
  by (simp add: addCube_def)

lemma addCube_unchanged:
  assumes "raises (fst (addCube w c))"
  shows "snd (addCube w c) = w"
proof -
  have "\<exists>k :: error + unit. addCube w c =
      (case k of Inl e \<Rightarrow> (Inl e, w) | Inr _ \<Rightarrow> (Inr (), w\<lparr>cube := cube w @ [c]\<rparr>))"
    unfolding addCube_def Let_def by (rule exI) (rule refl)
  then obtain k :: "error + unit" where k: "addCube w c =
      (case k of Inl e \<Rightarrow> (Inl e, w) | Inr _ \<Rightarrow> (Inr (), w\<lparr>cube := cube w @ [c]\<rparr>))"
    by blast
  show ?thesis using assms unfolding k by (cases k) (simp_all add: raises_def)
qed

lemma addCube_readable:
  assumes "cube w \<noteq> []" and "cubeHeight w = Inr ch" and "cubeDepth w = Inr cd"
  shows "addCube w c =
    (if same_dimensions (cube w ! 0) c then (Inr (), w\<lparr>cube := cube w @ [c]\<rparr>)
     else (Inl CubeDimensionsDoNotConform, w))"
proof -
  from cube_extents_positive[OF assms] obtain cw where
    cw: "cubeWidth w = Inr cw" "cw = Cube_width (cube w ! 0)" "0 < cw" "0 < ch" by blast
  have first: "Cube_height (cube w ! 0) = Inr ch" "Cube_depth (cube w ! 0) = Inr cd"
    using assms by (auto simp: cubeHeight_def cubeDepth_def)
  show ?thesis
    using assms cw first
    unfolding addCube_def same_dimensions_def Cube_width_def Cube_height_def Cube_depth_def
    by (cases "vox c"; cases "hd (vox c)") auto
qed

subsection \<open>Voxel types\<close>

lemma dedupe_Nil: "dedupe [] = []"
  by (simp add: dedupe_def)

lemma dedupe_snoc:
  "dedupe (xs @ [x]) = (if x \<in> set (dedupe xs) then dedupe xs else dedupe xs @ [x])"
  by (auto simp: dedupe_def list_all_iff Voxel_eq_iff)

lemma set_dedupe: "set (dedupe xs) = set xs"
  by (induction xs rule: rev_induct) (auto simp: dedupe_Nil dedupe_snoc)

lemma distinct_dedupe: "distinct (dedupe xs)"
  by (induction xs rule: rev_induct) (auto simp: dedupe_Nil dedupe_snoc)

lemma first_seen_less: "v \<in> set xs \<Longrightarrow> first_seen xs v < length xs"
  unfolding first_seen_def Voxel_eq_iff by (rule takeWhile_stops[where x = v]) simp_all

lemma first_seen_append_in: "v \<in> set xs \<Longrightarrow> first_seen (xs @ ys) v = first_seen xs v"
  unfolding first_seen_def Voxel_eq_iff
  by (subst takeWhile_append1[where x = v]) auto

lemma first_seen_append_notin:
  "v \<notin> set xs \<Longrightarrow> first_seen (xs @ ys) v = length xs + first_seen ys v"
  unfolding first_seen_def Voxel_eq_iff
  by (subst takeWhile_append2) auto

lemma sorted_dedupe:
  "sorted_wrt (\<lambda>u v. first_seen xs u < first_seen xs v) (dedupe xs)"
proof (induction xs rule: rev_induct)
  case Nil
  then show ?case by (simp add: dedupe_Nil)
next
  case (snoc x xs)
  have keep: "sorted_wrt (\<lambda>u v. first_seen (xs @ [x]) u < first_seen (xs @ [x]) v) (dedupe xs)"
    using snoc.IH
    by (rule sorted_wrt_mono_rel[rotated]) (simp add: set_dedupe first_seen_append_in)
  show ?case
  proof (cases "x \<in> set xs")
    case True
    then show ?thesis using keep by (simp add: dedupe_snoc set_dedupe)
  next
    case False
    have "first_seen (xs @ [x]) u < first_seen (xs @ [x]) x" if "u \<in> set xs" for u
      using that False first_seen_less[OF that]
      by (simp add: first_seen_append_in first_seen_append_notin)
    then show ?thesis using keep False
      by (simp add: dedupe_snoc set_dedupe sorted_wrt_append)
  qed
qed

lemma distinct_sorted_first_seen:
  "distinct t \<Longrightarrow> sorted_wrt (\<lambda>u v. first_seen t u < first_seen t v) t"
proof (induction t rule: rev_induct)
  case Nil
  then show ?case by simp
next
  case (snoc x t)
  then have d: "distinct t" and x: "x \<notin> set t" by auto
  have keep: "sorted_wrt (\<lambda>u v. first_seen (t @ [x]) u < first_seen (t @ [x]) v) t"
    using snoc.IH[OF d]
    by (rule sorted_wrt_mono_rel[rotated]) (simp add: first_seen_append_in)
  have "first_seen (t @ [x]) u < first_seen (t @ [x]) x" if "u \<in> set t" for u
    using that x first_seen_less[OF that]
    by (simp add: first_seen_append_in first_seen_append_notin)
  then show ?case using keep by (simp add: sorted_wrt_append)
qed

lemma merge_types_Nil: "merge_types [] = []"
  by (simp add: merge_types_def)

lemma merge_types_snoc:
  "merge_types (ts @ [t]) = merge_types ts @ filter (\<lambda>x. x \<notin> set (merge_types ts)) t"
  by (simp add: merge_types_def list_ex_iff Voxel_eq_iff)

lemma set_merge_types: "set (merge_types ts) = set (concat ts)"
  by (induction ts rule: rev_induct) (auto simp: merge_types_Nil merge_types_snoc)

lemma distinct_merge_types: "(\<forall>t\<in>set ts. distinct t) \<Longrightarrow> distinct (merge_types ts)"
  by (induction ts rule: rev_induct) (auto simp: merge_types_Nil merge_types_snoc)

lemma sorted_merge_types:
  "(\<forall>t\<in>set ts. distinct t) \<Longrightarrow>
   sorted_wrt (\<lambda>u v. first_seen (concat ts) u < first_seen (concat ts) v) (merge_types ts)"
proof (induction ts rule: rev_induct)
  case Nil
  then show ?case by (simp add: merge_types_Nil)
next
  case (snoc t ts)
  let ?new = "filter (\<lambda>x. x \<notin> set (merge_types ts)) t"
  let ?P = "\<lambda>u v. first_seen (concat ts @ t) u < first_seen (concat ts @ t) v"
  from snoc.prems have dt: "distinct t" and dts: "\<forall>t\<in>set ts. distinct t" by auto
  have old: "sorted_wrt ?P (merge_types ts)"
    using snoc.IH[OF dts]
    by (rule sorted_wrt_mono_rel[rotated]) (simp add: set_merge_types first_seen_append_in)
  have "sorted_wrt (\<lambda>u v. first_seen t u < first_seen t v) ?new"
    using distinct_sorted_first_seen[OF dt] by (rule sorted_wrt_filter)
  then have new: "sorted_wrt ?P ?new"
    by (rule sorted_wrt_mono_rel[rotated]) (simp add: set_merge_types first_seen_append_notin)
  have cross: "?P u v" if "u \<in> set (merge_types ts)" "v \<in> set ?new" for u v
  proof -
    from that(1) have u: "u \<in> set (concat ts)" by (simp add: set_merge_types)
    from that(2) have v: "v \<notin> set (concat ts)" by (simp add: set_merge_types)
    show ?thesis using first_seen_less[OF u]
      by (simp add: first_seen_append_in[OF u] first_seen_append_notin[OF v])
  qed
  show ?case using old new cross
    by (simp add: merge_types_snoc sorted_wrt_append)
qed

lemma distinct_Cube_voxelTypes: "distinct (Cube_voxelTypes c)"
  by (simp add: Cube_voxelTypes_def distinct_dedupe)

lemma distinct_nth_Voxel_eq:
  "distinct ts \<Longrightarrow> i < length ts \<Longrightarrow> j < length ts \<Longrightarrow> i \<noteq> j \<Longrightarrow>
   \<not> Voxel_eq (ts ! i) (ts ! j)"
  by (simp add: Voxel_eq_iff nth_eq_iff_index_eq)

subsection \<open>Mapping and the serialised form\<close>

lemma Cube_map_identity: "Cube_map (\<lambda>z i j k. z) c = c"
  by (simp add: Cube_map_def enumerate_identity)

lemma World_map_identity: "World_map (\<lambda>z i j k. z) w = w\<lparr>author := ''''\<rparr>"
  by (simp add: World_map_def World_def enumerate_identity)

lemma Voxel_roundtrip: "Voxel_fromJSON (Voxel_toJSON v) = v"
  by (simp add: Voxel_fromJSON_def Voxel_toJSON_def argument_def Voxel_def)

lemma Cube_roundtrip: "Cube_fromJSON (Cube_toJSON c) = c"
  by (simp add: Cube_fromJSON_def Cube_toJSON_def comp_def Voxel_roundtrip)

section \<open>The claims\<close>

subsection \<open>C1: the z axis of the expansion is indexed with the cube's width\<close>

text \<open>
  C1. For a world with a non-empty palette whose integrity check succeeds, every cell
  \<open>(x, y, z)\<close> of the cube that \<open>asCube\<close> returns is computed with the cube's width on the
  z axis: the id is read at \<open>space[x div cubeWidth][y div cubeHeight][z div cubeWidth]\<close>
  (these reads are in range), an id 0 gives the default voxel, and any other id \<open>n\<close> gives
  the cell \<open>vox[x mod cubeWidth][y mod cubeHeight][z mod cubeWidth]\<close> of palette cube
  \<open>n - 1\<close>, which is \<open>undefined\<close> when \<open>z mod cubeWidth\<close> is beyond the cube's depth.
  The cube's depth is used for the extent of the z axis only: the result has
  cubeWidth * width by cubeHeight * height by cubeDepth * depth cells.
\<close>

theorem asCube_z_axis_uses_cubeWidth:
  assumes "integrity w = Inr True" and "cube w \<noteq> []" and "asCube w = Inr c"
    and "cubeWidth w = Inr cw" and "cubeHeight w = Inr ch" and "cubeDepth w = Inr cd"
    and "height w = Inr h" and "depth w = Inr d"
    and "x < cw * width w" and "y < ch * h" and "z < cd * d"
  shows "length (vox c) = cw * width w \<and> length (vox c ! x) = ch * h
       \<and> length (vox c ! x ! y) = cd * d
       \<and> x div cw < length (space w) \<and> y div ch < length (space w ! (x div cw))
       \<and> z div cw < length (space w ! (x div cw) ! (y div ch))
       \<and> (if space w ! (x div cw) ! (y div ch) ! (z div cw) = 0
          then vox c ! x ! y ! z = Some Voxel_default
          else 0 < space w ! (x div cw) ! (y div ch) ! (z div cw)
             \<and> nat (space w ! (x div cw) ! (y div ch) ! (z div cw) - 1) < length (cube w)
             \<and> x mod cw
                 < length (vox (cube w ! nat (space w ! (x div cw) ! (y div ch) ! (z div cw) - 1)))
             \<and> y mod ch
                 < length (vox (cube w ! nat (space w ! (x div cw) ! (y div ch) ! (z div cw) - 1))
                             ! (x mod cw))
             \<and> vox c ! x ! y ! z =
                 js_nth (vox (cube w ! nat (space w ! (x div cw) ! (y div ch) ! (z div cw) - 1))
                           ! (x mod cw) ! (y mod ch)) (Some (z mod cw)))"
proof -
  have v: "asCube_voxel w x y z = Inr (vox c ! x ! y ! z)"
    using asCube_cells(4)[OF assms(3,4,5,6,7,8) assms(9,10,11)] .
  have e: "length (vox c) = cw * width w" "length (vox c ! x) = ch * h"
    "length (vox c ! x ! y) = cd * d"
    using asCube_cells(1,2,3)[OF assms(3,4,5,6,7,8)] assms(9,10) by simp_all
  have "0 < cw" "0 < ch" using assms(9,10) by (auto intro: gr0I)
  then show ?thesis using asCube_voxel_Inr[OF v assms(4,5)] e by blast
qed

text \<open>
  A block that is two wide and one deep, in a space with two places along z: the cell
  at \<open>z = 1\<close> belongs to the second place, whose id is 0, but it is read from the first
  place (\<open>1 div 2 = 0\<close>) at the depth \<open>1 mod 2 = 1\<close>, which the block does not have.
\<close>

theorem asCube_z_axis_uses_cubeWidth_witness:
  "integrity world_1x1x2 = Inr True \<and> cube world_1x1x2 \<noteq> []
   \<and> asCube world_1x1x2 = Inr expanded_1x1x2
   \<and> cubeWidth world_1x1x2 = Inr 2 \<and> cubeHeight world_1x1x2 = Inr 1
   \<and> cubeDepth world_1x1x2 = Inr 1 \<and> height world_1x1x2 = Inr 1 \<and> depth world_1x1x2 = Inr 2
   \<and> (0::nat) < 2 * width world_1x1x2 \<and> (0::nat) < 1 * 1 \<and> (1::nat) < 1 * 2
   \<and> space world_1x1x2 ! 0 ! 0 ! 0 = 1 \<and> space world_1x1x2 ! 0 ! 0 ! 1 = 0
   \<and> vox expanded_1x1x2 ! 0 ! 0 ! 1 = js_nth (vox (cube world_1x1x2 ! 0) ! 0 ! 0) (Some 1)
   \<and> vox expanded_1x1x2 ! 0 ! 0 ! 1 = None"
proof -
  have a: "integrity world_1x1x2 = Inr True" by code_simp
  have b: "cube world_1x1x2 \<noteq> []" by code_simp
  have c: "asCube world_1x1x2 = Inr expanded_1x1x2" by code_simp
  have d: "cubeWidth world_1x1x2 = Inr 2" "cubeHeight world_1x1x2 = Inr 1"
    "cubeDepth world_1x1x2 = Inr 1" "height world_1x1x2 = Inr 1" "depth world_1x1x2 = Inr 2"
    by code_simp+
  have e: "(0::nat) < 2 * width world_1x1x2" "(0::nat) < 1 * 1" "(1::nat) < 1 * 2"
    by code_simp+
  have s: "space world_1x1x2 ! 0 ! 0 ! 0 = 1" "space world_1x1x2 ! 0 ! 0 ! 1 = 0"
    by (simp_all add: world_1x1x2_def World_def)
  have n: "vox expanded_1x1x2 ! 0 ! 0 ! 1 = None"
    by (simp add: expanded_1x1x2_def)
  from asCube_z_axis_uses_cubeWidth[OF a b c d e] s
  have "vox expanded_1x1x2 ! 0 ! 0 ! 1 = js_nth (vox (cube world_1x1x2 ! 0) ! 0 ! 0) (Some 1)"
    by simp
  with a b c d e s n show ?thesis by simp
qed

subsection \<open>C2: the integrity check\<close>

text \<open>
  C2. For a world whose extents can be read (\<open>space[0][0]\<close> exists and, when the palette
  is not empty, so does \<open>vox[0][0]\<close> of the first palette cube), the integrity check
  returns true if and only if the flattened length of \<open>space\<close> is width * height * depth,
  with the extents read as \<open>space.length\<close>, \<open>space[0].length\<close> and \<open>space[0][0].length\<close>,
  and every palette cube has the width, height and depth of the first one. Otherwise it
  raises one of its two descriptive errors; it never returns false.
\<close>

theorem integrity_iff:
  assumes "height w = Inr h" and "depth w = Inr d"
    and "cube w \<noteq> [] \<longrightarrow> cubeHeight w = Inr ch \<and> cubeDepth w = Inr cd"
  shows "width w = length (space w) \<and> h = length (space w ! 0) \<and> d = length (space w ! 0 ! 0)
    \<and> (integrity w = Inr True \<longleftrightarrow>
         length (flat2 (space w)) = width w * h * d
         \<and> (\<forall>c\<in>set (cube w). Cube_width c = Cube_width (cube w ! 0)
                           \<and> Cube_height c = Cube_height (cube w ! 0)
                           \<and> Cube_depth c = Cube_depth (cube w ! 0)))
    \<and> (integrity w \<noteq> Inr True \<longrightarrow>
         integrity w = Inl SpaceUnequalDimensionality \<or> integrity w = Inl CubesUnequalSizes)"
proof (intro conjI)
  show "width w = length (space w)" by (simp add: width_def)
  show "h = length (space w ! 0)" "d = length (space w ! 0 ! 0)"
    using world_extents[OF assms(1,2)] by simp_all
  show "integrity w = Inr True \<longleftrightarrow>
         length (flat2 (space w)) = width w * h * d
         \<and> (\<forall>c\<in>set (cube w). Cube_width c = Cube_width (cube w ! 0)
                           \<and> Cube_height c = Cube_height (cube w ! 0)
                           \<and> Cube_depth c = Cube_depth (cube w ! 0))"
    unfolding integrity_value[OF assms] by (auto split: if_splits)
  show "integrity w \<noteq> Inr True \<longrightarrow>
         integrity w = Inl SpaceUnequalDimensionality \<or> integrity w = Inl CubesUnequalSizes"
    unfolding integrity_value[OF assms] by simp
qed

theorem integrity_iff_witness:
  "height world_checker = Inr 1 \<and> depth world_checker = Inr 2
   \<and> cubeHeight world_checker = Inr 1 \<and> cubeDepth world_checker = Inr 1
   \<and> integrity world_checker = Inr True
   \<and> length (flat2 (space world_checker)) = width world_checker * 1 * 2
   \<and> height world_mixed = Inr 1 \<and> depth world_mixed = Inr 2
   \<and> cubeHeight world_mixed = Inr 1 \<and> cubeDepth world_mixed = Inr 1
   \<and> integrity world_mixed \<noteq> Inr True
   \<and> integrity world_mixed = Inl CubesUnequalSizes"
proof -
  have a: "height world_checker = Inr 1" "depth world_checker = Inr 2" by code_simp+
  have b: "cubeHeight world_checker = Inr 1 \<and> cubeDepth world_checker = Inr 1" by code_simp
  have i: "integrity world_checker = Inr True" by code_simp
  have l: "length (flat2 (space world_checker)) = width world_checker * 1 * 2"
    using integrity_iff[OF a, of 1 1] b i by blast
  have a': "height world_mixed = Inr 1" "depth world_mixed = Inr 2" by code_simp+
  have b': "cubeHeight world_mixed = Inr 1 \<and> cubeDepth world_mixed = Inr 1" by code_simp
  have i': "integrity world_mixed = Inl CubesUnequalSizes" by code_simp
  then have n: "integrity world_mixed \<noteq> Inr True" by simp
  have "integrity world_mixed = Inl SpaceUnequalDimensionality
      \<or> integrity world_mixed = Inl CubesUnequalSizes"
    using integrity_iff[OF a', of 1 1] b' n by blast
  with a b i l a' b' i' n show ?thesis by simp
qed

subsection \<open>C3: an id 0 gives the default voxel\<close>

text \<open>
  C3, as stated, fails on an empty palette: the world below has the id 0 at its only
  place, and \<open>asCube\<close> raises instead of placing a default voxel.
\<close>

theorem asCube_empty_palette_counterexample:
  "cube world_empty_palette = [] \<and> space world_empty_palette ! 0 ! 0 ! 0 = 0
   \<and> asCube world_empty_palette = Inl NoBlockDefined"
  by (simp add: world_empty_palette_def World_empty_def World_def asCube_NoBlockDefined
      integrity_def height_def depth_def width_def flat2_def)

text \<open>
  C3, amended. For a world whose cubes are as wide as they are deep and for which
  \<open>asCube\<close> returns a cube, every cell \<open>(x, y, z)\<close> of that cube whose block
  \<open>(x div cubeWidth, y div cubeHeight, z div cubeDepth)\<close> has the id 0 in \<open>space\<close> holds
  the default voxel, with r = g = b = a = 0, whatever the palette cubes contain.
\<close>

theorem asCube_id_0_default:
  assumes "asCube w = Inr c"
    and "cubeWidth w = Inr cw" and "cubeHeight w = Inr ch" and "cubeDepth w = Inr cd"
    and "cw = cd"
    and "height w = Inr h" and "depth w = Inr d"
    and "x < cw * width w" and "y < ch * h" and "z < cd * d"
    and "space w ! (x div cw) ! (y div ch) ! (z div cd) = 0"
  shows "vox c ! x ! y ! z = Some \<lparr>vox_r = 0, vox_g = 0, vox_b = 0, vox_a = 0\<rparr>"
proof -
  have v: "asCube_voxel w x y z = Inr (vox c ! x ! y ! z)"
    using asCube_cells(4)[OF assms(1,2,3,4,6,7) assms(8,9,10)] .
  have "0 < cw" "0 < ch" using assms(8,9) by (auto intro: gr0I)
  then show ?thesis using asCube_voxel_Inr[OF v assms(2,3)] assms(5,11)
    by (simp add: Voxel_default_def Voxel_def)
qed

theorem asCube_id_0_default_witness:
  "asCube world_checker = Inr expanded_checker
   \<and> cubeWidth world_checker = Inr 1 \<and> cubeHeight world_checker = Inr 1
   \<and> cubeDepth world_checker = Inr 1 \<and> (1::nat) = 1
   \<and> height world_checker = Inr 1 \<and> depth world_checker = Inr 2
   \<and> (0::nat) < 1 * width world_checker \<and> (0::nat) < 1 * 1 \<and> (1::nat) < 1 * 2
   \<and> space world_checker ! (0 div 1) ! (0 div 1) ! (1 div 1) = 0
   \<and> vox expanded_checker ! 0 ! 0 ! 1 = Some \<lparr>vox_r = 0, vox_g = 0, vox_b = 0, vox_a = 0\<rparr>"
proof -
  have a: "asCube world_checker = Inr expanded_checker" by code_simp
  have d: "cubeWidth world_checker = Inr 1" "cubeHeight world_checker = Inr 1"
    "cubeDepth world_checker = Inr 1" "(1::nat) = 1"
    "height world_checker = Inr 1" "depth world_checker = Inr 2"
    by code_simp+
  have e: "(0::nat) < 1 * width world_checker" "(0::nat) < 1 * 1" "(1::nat) < 1 * 2"
    by code_simp+
  have s: "space world_checker ! (0 div 1) ! (0 div 1) ! (1 div 1) = 0"
    by (simp add: world_checker_def World_def)
  from asCube_id_0_default[OF a d e s] a d e s show ?thesis by simp
qed

subsection \<open>C4: mapping the identity over a world\<close>

text \<open>
  C4. \<open>World.map\<close> calls the constructor without the author, so the world it returns has
  the author \<open>''\<close>: mapping the identity over a world with an author does not give an
  equal world. (\<open>Cube.map\<close> and \<open>World.fromJSON\<close> pass the author on.)
\<close>

theorem World_map_identity_drops_author:
  "author world_signed = ''me'' \<and> author (World_map (\<lambda>z i j k. z) world_signed) = ''''
   \<and> World_map (\<lambda>z i j k. z) world_signed \<noteq> world_signed"
  by (simp add: world_signed_def World_map_def World_def)

subsection \<open>C5: the serialised form is read back\<close>

text \<open>
  C5. Reading the serialised form of a world back with \<open>World.fromJSON\<close> gives the world
  itself: the same name, description and author, the same ids in \<open>space\<close>, and palette
  cubes with the same name, description, author and voxels.
\<close>

theorem World_roundtrip: "World_fromJSON (World_toJSON w) = w"
  by (simp add: World_fromJSON_def World_toJSON_def World_def comp_def Cube_roundtrip)

subsection \<open>C6: adding a cube to the palette\<close>

text \<open>
  C6, as stated, fails when the extents of the first palette cube cannot be read. Adding
  the cube \<open>Cube.empty(0,0,0)\<close> to the empty world \<open>World.empty(1,1,1)\<close> appends it without
  a check. Adding the same cube again raises, although the new cube has the width of the
  first palette cube and neither has a height or a depth that could differ: the widths
  are both 0, and then \<open>cubeHeight\<close> reads \<open>vox[0].length\<close> of the first palette cube and
  throws a \<open>TypeError\<close>. Nothing is appended.
\<close>

theorem addCube_empty_shape_counterexample:
  "addCube world_empty_palette (Cube_empty 0 0 0) = (Inr (), world_empty_block)
   \<and> cube world_empty_block = [Cube_empty 0 0 0]
   \<and> Cube_width (Cube_empty 0 0 0) = Cube_width (cube world_empty_block ! 0)
   \<and> Cube_height (Cube_empty 0 0 0) = Cube_height (cube world_empty_block ! 0)
   \<and> Cube_depth (Cube_empty 0 0 0) = Cube_depth (cube world_empty_block ! 0)
   \<and> addCube world_empty_block (Cube_empty 0 0 0) = (Inl TypeError, world_empty_block)"
  by (simp add: world_empty_block_def world_empty_palette_def World_empty_def World_def
      Cube_empty_def addCube_def cubeWidth_def cubeHeight_def Cube_width_def Cube_height_def)

text \<open>
  C6, amended. For a world whose first palette cube, if there is one, has a height and a
  depth that can be read (\<open>vox[0][0]\<close> exists), \<open>addCube\<close> raises exactly when the palette
  is not empty and the width, height or depth of the new cube differs from that of the
  first palette cube; when the palette is empty or the three dimensions are the same,
  the cube is appended to the palette. For every world, when \<open>addCube\<close> raises, the world
  is unchanged.
\<close>

theorem addCube_guard:
  "((cube w \<noteq> [] \<longrightarrow> \<not> raises (cubeHeight w) \<and> \<not> raises (cubeDepth w)) \<longrightarrow>
      (raises (fst (addCube w c)) \<longleftrightarrow> cube w \<noteq> [] \<and> \<not> same_dimensions (cube w ! 0) c)
      \<and> (cube w = [] \<or> same_dimensions (cube w ! 0) c \<longrightarrow>
           addCube w c = (Inr (), w\<lparr>cube := cube w @ [c]\<rparr>)))
   \<and> (raises (fst (addCube w c)) \<longrightarrow> snd (addCube w c) = w)"
proof (intro conjI impI)
  assume r: "cube w \<noteq> [] \<longrightarrow> \<not> raises (cubeHeight w) \<and> \<not> raises (cubeDepth w)"
  show "raises (fst (addCube w c)) \<longleftrightarrow> cube w \<noteq> [] \<and> \<not> same_dimensions (cube w ! 0) c"
  proof (cases "cube w = []")
    case True
    then show ?thesis using addCube_empty[OF True, of c] by (simp add: raises_def)
  next
    case False
    with r obtain ch cd where "cubeHeight w = Inr ch" "cubeDepth w = Inr cd"
      by (cases "cubeHeight w"; cases "cubeDepth w") (auto simp: raises_def)
    from addCube_readable[OF False this] False show ?thesis by (simp add: raises_def)
  qed
next
  assume r: "cube w \<noteq> [] \<longrightarrow> \<not> raises (cubeHeight w) \<and> \<not> raises (cubeDepth w)"
  assume s: "cube w = [] \<or> same_dimensions (cube w ! 0) c"
  show "addCube w c = (Inr (), w\<lparr>cube := cube w @ [c]\<rparr>)"
  proof (cases "cube w = []")
    case True
    then show ?thesis by (rule addCube_empty)
  next
    case False
    with r obtain ch cd where "cubeHeight w = Inr ch" "cubeDepth w = Inr cd"
      by (cases "cubeHeight w"; cases "cubeDepth w") (auto simp: raises_def)
    from addCube_readable[OF False this] False s show ?thesis by simp
  qed
next
  assume "raises (fst (addCube w c))"
  then show "snd (addCube w c) = w" by (rule addCube_unchanged)
qed

theorem addCube_guard_witness:
  "cube world_checker \<noteq> []
   \<and> \<not> raises (cubeHeight world_checker) \<and> \<not> raises (cubeDepth world_checker)
   \<and> \<not> same_dimensions (cube world_checker ! 0) block_1x1x2
   \<and> raises (fst (addCube world_checker block_1x1x2))
   \<and> snd (addCube world_checker block_1x1x2) = world_checker
   \<and> cube world_empty_palette = []
   \<and> addCube world_empty_palette block_1x1x2
       = (Inr (), world_empty_palette\<lparr>cube := cube world_empty_palette @ [block_1x1x2]\<rparr>)
   \<and> same_dimensions (cube world_checker ! 0) block_1x1x1
   \<and> addCube world_checker block_1x1x1
       = (Inr (), world_checker\<lparr>cube := cube world_checker @ [block_1x1x1]\<rparr>)"
proof -
  have a: "cube world_checker \<noteq> []" by code_simp
  have h: "\<not> raises (cubeHeight world_checker)" "\<not> raises (cubeDepth world_checker)"
    by code_simp+
  have b: "\<not> same_dimensions (cube world_checker ! 0) block_1x1x2" by code_simp
  note t = addCube_guard[of world_checker block_1x1x2]
  have r: "raises (fst (addCube world_checker block_1x1x2))"
    using t[THEN conjunct1] a h b by blast
  have u: "snd (addCube world_checker block_1x1x2) = world_checker"
    using t[THEN conjunct2] r by blast
  have e: "cube world_empty_palette = []" by code_simp
  have p: "addCube world_empty_palette block_1x1x2
       = (Inr (), world_empty_palette\<lparr>cube := cube world_empty_palette @ [block_1x1x2]\<rparr>)"
    using addCube_guard[of world_empty_palette block_1x1x2, THEN conjunct1] e by blast
  have s: "same_dimensions (cube world_checker ! 0) block_1x1x1" by code_simp
  have q: "addCube world_checker block_1x1x1
       = (Inr (), world_checker\<lparr>cube := cube world_checker @ [block_1x1x1]\<rparr>)"
    using addCube_guard[of world_checker block_1x1x1, THEN conjunct1] a h s by blast
  from a h b r u e p s q show ?thesis by simp
qed

subsection \<open>C7: no expansion without integrity\<close>

text \<open>
  C7. \<open>asCube\<close> raises whenever the integrity check raises (with the same error), it
  raises when the palette is empty while \<open>space\<close> holds an id other than 0, and whenever
  it returns a cube the integrity check has succeeded.
\<close>

theorem asCube_fails_without_integrity:
  "(\<forall>e. integrity w = Inl e \<longrightarrow> asCube w = Inl e)
   \<and> (cube w = [] \<and> (\<exists>i. i \<in> set (flat2 (space w)) \<and> i \<noteq> 0) \<longrightarrow> (\<exists>e. asCube w = Inl e))
   \<and> (\<forall>c. asCube w = Inr c \<longrightarrow> integrity w = Inr True)"
proof (intro conjI allI impI)
  fix e assume "integrity w = Inl e"
  then show "asCube w = Inl e" by (rule asCube_integrity_error)
next
  assume "cube w = [] \<and> (\<exists>i. i \<in> set (flat2 (space w)) \<and> i \<noteq> 0)"
  then have "\<forall>c. asCube w \<noteq> Inr c" using asCube_palette by blast
  then show "\<exists>e. asCube w = Inl e" by (cases "asCube w") auto
next
  fix c assume "asCube w = Inr c"
  then show "integrity w = Inr True" by (rule asCube_integrity)
qed

theorem asCube_fails_without_integrity_witness:
  "integrity world_mixed = Inl CubesUnequalSizes \<and> asCube world_mixed = Inl CubesUnequalSizes
   \<and> cube world_dangling_id = [] \<and> 1 \<in> set (flat2 (space world_dangling_id)) \<and> (1::int) \<noteq> 0
   \<and> asCube world_dangling_id = Inl NoBlockDefined
   \<and> asCube world_checker = Inr expanded_checker \<and> integrity world_checker = Inr True"
proof -
  have a: "integrity world_mixed = Inl CubesUnequalSizes" by code_simp
  have a': "asCube world_mixed = Inl CubesUnequalSizes"
    using asCube_fails_without_integrity[of world_mixed] a by blast
  have b: "cube world_dangling_id = []" "1 \<in> set (flat2 (space world_dangling_id))"
    by (simp_all add: world_dangling_id_def World_def flat2_def)
  then have "\<exists>e. asCube world_dangling_id = Inl e"
    using asCube_fails_without_integrity[of world_dangling_id] by force
  then have b': "asCube world_dangling_id = Inl NoBlockDefined"
    by (simp add: asCube_def integrity_def height_def depth_def width_def flat2_def
        cubeWidth_def world_dangling_id_def World_def)
  have c: "asCube world_checker = Inr expanded_checker" by code_simp
  have c': "integrity world_checker = Inr True"
    using asCube_fails_without_integrity[of world_checker] c by blast
  from a a' b b' c c' show ?thesis by simp
qed

subsection \<open>C8: voxel types\<close>

text \<open>
  C8. The voxel types of a cube, and those of a world, hold no two entries that are
  component-wise equal and no entry with alpha 0. The voxel types of a cube are the
  visible voxels of the scan \<open>vox.flat(2)\<close>, in the order in which the scan first meets
  them. The voxel types of a world are the union of the voxel types of its palette
  cubes, in the order in which the palette, cube after cube, first lists them.
\<close>

theorem voxelTypes_distinct_visible:
  "(\<forall>i j. i < length (Cube_voxelTypes c) \<and> j < length (Cube_voxelTypes c) \<and> i \<noteq> j
        \<longrightarrow> \<not> Voxel_eq (Cube_voxelTypes c ! i) (Cube_voxelTypes c ! j))
   \<and> (\<forall>v. v \<in> set (Cube_voxelTypes c) \<longrightarrow> vox_a v \<noteq> 0)
   \<and> set (Cube_voxelTypes c) = {v \<in> set (flat2 (vox c)). vox_a v \<noteq> 0}
   \<and> sorted_wrt (\<lambda>u v. first_seen (flat2 (vox c)) u < first_seen (flat2 (vox c)) v)
        (Cube_voxelTypes c)
   \<and> (\<forall>i j. i < length (voxelTypes w) \<and> j < length (voxelTypes w) \<and> i \<noteq> j
        \<longrightarrow> \<not> Voxel_eq (voxelTypes w ! i) (voxelTypes w ! j))
   \<and> (\<forall>v. v \<in> set (voxelTypes w) \<longrightarrow> vox_a v \<noteq> 0)
   \<and> set (voxelTypes w) = (\<Union>b\<in>set (cube w). set (Cube_voxelTypes b))
   \<and> sorted_wrt (\<lambda>u v. first_seen (concat (map Cube_voxelTypes (cube w))) u
                     < first_seen (concat (map Cube_voxelTypes (cube w))) v)
        (voxelTypes w)"
proof (intro conjI)
  show "\<forall>i j. i < length (Cube_voxelTypes c) \<and> j < length (Cube_voxelTypes c) \<and> i \<noteq> j
        \<longrightarrow> \<not> Voxel_eq (Cube_voxelTypes c ! i) (Cube_voxelTypes c ! j)"
    using distinct_nth_Voxel_eq[OF distinct_Cube_voxelTypes] by blast
  show cv: "\<forall>v. v \<in> set (Cube_voxelTypes c) \<longrightarrow> vox_a v \<noteq> 0" for c
    by (simp add: Cube_voxelTypes_def visible_def)
  show "set (Cube_voxelTypes c) = {v \<in> set (flat2 (vox c)). vox_a v \<noteq> 0}"
    by (auto simp: Cube_voxelTypes_def visible_def set_dedupe)
  show "sorted_wrt (\<lambda>u v. first_seen (flat2 (vox c)) u < first_seen (flat2 (vox c)) v)
        (Cube_voxelTypes c)"
    unfolding Cube_voxelTypes_def by (rule sorted_wrt_filter) (rule sorted_dedupe)
  have d: "\<forall>t\<in>set (map Cube_voxelTypes (cube w)). distinct t"
    by (simp add: distinct_Cube_voxelTypes)
  show "\<forall>i j. i < length (voxelTypes w) \<and> j < length (voxelTypes w) \<and> i \<noteq> j
        \<longrightarrow> \<not> Voxel_eq (voxelTypes w ! i) (voxelTypes w ! j)"
    using distinct_nth_Voxel_eq[OF distinct_merge_types[OF d]] unfolding voxelTypes_def
    by blast
  show s: "set (voxelTypes w) = (\<Union>b\<in>set (cube w). set (Cube_voxelTypes b))"
    by (simp add: voxelTypes_def set_merge_types)
  show "\<forall>v. v \<in> set (voxelTypes w) \<longrightarrow> vox_a v \<noteq> 0"
    unfolding s using cv by blast
  show "sorted_wrt (\<lambda>u v. first_seen (concat (map Cube_voxelTypes (cube w))) u
                     < first_seen (concat (map Cube_voxelTypes (cube w))) v)
        (voxelTypes w)"
    unfolding voxelTypes_def by (rule sorted_merge_types[OF d])
qed

theorem voxelTypes_distinct_visible_witness:
  "Cube_voxelTypes block_1x1x4 = [Voxel 1 2 3 4, Voxel 5 6 7 8]
   \<and> (0::nat) < length (Cube_voxelTypes block_1x1x4)
   \<and> (1::nat) < length (Cube_voxelTypes block_1x1x4) \<and> (0::nat) \<noteq> 1
   \<and> \<not> Voxel_eq (Cube_voxelTypes block_1x1x4 ! 0) (Cube_voxelTypes block_1x1x4 ! 1)
   \<and> Voxel 5 6 7 8 \<in> set (Cube_voxelTypes block_1x1x4) \<and> vox_a (Voxel 5 6 7 8) \<noteq> 0
   \<and> voxelTypes world_two_blocks = [Voxel 1 2 3 4, Voxel 5 6 7 8, Voxel 9 9 9 1]
   \<and> (0::nat) < length (voxelTypes world_two_blocks)
   \<and> (2::nat) < length (voxelTypes world_two_blocks) \<and> (0::nat) \<noteq> 2
   \<and> \<not> Voxel_eq (voxelTypes world_two_blocks ! 0) (voxelTypes world_two_blocks ! 2)
   \<and> Voxel 9 9 9 1 \<in> set (voxelTypes world_two_blocks) \<and> vox_a (Voxel 9 9 9 1) \<noteq> 0"
proof -
  have a: "Cube_voxelTypes block_1x1x4 = [Voxel 1 2 3 4, Voxel 5 6 7 8]" by code_simp
  have b: "voxelTypes world_two_blocks = [Voxel 1 2 3 4, Voxel 5 6 7 8, Voxel 9 9 9 1]"
    by code_simp
  have l: "(0::nat) < length (Cube_voxelTypes block_1x1x4)"
    "(1::nat) < length (Cube_voxelTypes block_1x1x4)" "(0::nat) \<noteq> 1"
    "Voxel 5 6 7 8 \<in> set (Cube_voxelTypes block_1x1x4)"
    by (simp_all add: a)
  have m: "(0::nat) < length (voxelTypes world_two_blocks)"
    "(2::nat) < length (voxelTypes world_two_blocks)" "(0::nat) \<noteq> 2"
    "Voxel 9 9 9 1 \<in> set (voxelTypes world_two_blocks)"
    by (simp_all add: b)
  note t = voxelTypes_distinct_visible[of block_1x1x4 world_two_blocks]
  note t1 = t[THEN conjunct1]
  note t2 = t[THEN conjunct2, THEN conjunct1]
  note t5 = t[THEN conjunct2, THEN conjunct2, THEN conjunct2, THEN conjunct2, THEN conjunct1]
  note t6 = t[THEN conjunct2, THEN conjunct2, THEN conjunct2, THEN conjunct2, THEN conjunct2,
              THEN conjunct1]
  have c1: "\<not> Voxel_eq (Cube_voxelTypes block_1x1x4 ! 0) (Cube_voxelTypes block_1x1x4 ! 1)"
    using t1 l(1,2,3) by blast
  have c2: "vox_a (Voxel 5 6 7 8) \<noteq> 0" using t2 l(4) by blast
  have c3: "\<not> Voxel_eq (voxelTypes world_two_blocks ! 0) (voxelTypes world_two_blocks ! 2)"
    using t5 m(1,2,3) by blast
  have c4: "vox_a (Voxel 9 9 9 1) \<noteq> 0" using t6 m(4) by blast
  from a b l m c1 c2 c3 c4 show ?thesis by simp
qed

subsection \<open>C9: a world of one voxel\<close>

text \<open>
  C9. For a world whose palette is one cube of dimensions (1,1,1) holding the voxel \<open>v\<close>
  and whose space is \<open>[[[1]]]\<close>, \<open>asCube\<close> returns a cube of dimensions (1,1,1) whose only
  voxel is \<open>v\<close>, under the name, description and author of the world.
\<close>

theorem asCube_single_voxel:
  "asCube \<lparr>name = n, description = d,
           cube = [\<lparr>cube_name = bn, cube_description = bd, vox = [[[v]]], cube_author = ba\<rparr>],
           space = [[[1]]], author = a\<rparr>
     = Inr \<lparr>cube_name = n, cube_description = d, vox = [[[Some v]]], cube_author = a\<rparr>
   \<and> Cube_width \<lparr>cube_name = n, cube_description = d, vox = [[[Some v]]], cube_author = a\<rparr>
       = 1
   \<and> Cube_height \<lparr>cube_name = n, cube_description = d, vox = [[[Some v]]], cube_author = a\<rparr>
       = Inr 1
   \<and> Cube_depth \<lparr>cube_name = n, cube_description = d, vox = [[[Some v]]], cube_author = a\<rparr>
       = Inr 1"
  by (simp add: asCube_def integrity_def height_def depth_def width_def flat2_def
      unequal_size_def cubeWidth_def cubeHeight_def cubeDepth_def
      Cube_width_def Cube_height_def Cube_depth_def asCube_voxel_def
      index_def js_nth_def js_nth_int_def floor_div_def remainder_def)

subsection \<open>C10: the expansion of a world with an empty palette\<close>

text \<open>
  C10, as stated, fails where the integrity check fails first: the world that
  \<open>World.empty(0,0,0)\<close> builds has an empty palette and no \<open>space[0]\<close>, and \<open>asCube\<close> raises the \<open>TypeError\<close> of the integrity
  check, not the error "no block defined".
\<close>

theorem asCube_no_block_counterexample:
  "cube world_no_space = [] \<and> asCube world_no_space = Inl TypeError
   \<and> asCube world_no_space \<noteq> Inl NoBlockDefined"
  by (simp add: world_no_space_def World_empty_def World_def asCube_def integrity_def
      height_def)

text \<open>
  C10, amended. For a world with an empty palette \<open>asCube\<close> never returns a cube: when the
  integrity check raises, \<open>asCube\<close> raises the same error, and when the integrity check
  succeeds, also with every id in \<open>space\<close> equal to 0, it raises "no block defined", from
  reading \<open>cubeWidth\<close> for the extent of the result before any id is read.
\<close>

theorem asCube_empty_palette_raises:
  assumes "cube w = []"
  shows "(integrity w = Inr True \<longrightarrow> asCube w = Inl NoBlockDefined)
       \<and> (\<forall>e. integrity w = Inl e \<longrightarrow> asCube w = Inl e)
       \<and> (\<forall>c. asCube w \<noteq> Inr c)"
  using assms asCube_NoBlockDefined asCube_integrity_error asCube_palette by blast

theorem asCube_empty_palette_raises_witness:
  "cube world_empty_palette = [] \<and> integrity world_empty_palette = Inr True
   \<and> asCube world_empty_palette = Inl NoBlockDefined
   \<and> cube world_no_space = [] \<and> integrity world_no_space = Inl TypeError
   \<and> asCube world_no_space = Inl TypeError"
proof -
  have a: "cube world_empty_palette = []"
    by (simp add: world_empty_palette_def World_empty_def World_def)
  have b: "integrity world_empty_palette = Inr True" by code_simp
  have c: "asCube world_empty_palette = Inl NoBlockDefined"
    using asCube_empty_palette_raises[OF a] b by blast
  have a': "cube world_no_space = []"
    by (simp add: world_no_space_def World_empty_def World_def)
  have b': "integrity world_no_space = Inl TypeError" by code_simp
  have c': "asCube world_no_space = Inl TypeError"
    using asCube_empty_palette_raises[OF a'] b' by blast
  from a b c a' b' c' show ?thesis by simp
qed

end
